theory Spec2Isabelle
  imports Complex_Main
begin

section \<open>Data model\<close>

text \<open>
  The declarations of the types module: a \<open>Photo\<close> pairs the selected file with the object
  URL created for its preview, an \<open>OrganizedFolder\<close> is what the service is asked to
  return. A \<open>File\<close> is the browser's file object, of which the program reads the name,
  the content type and the bytes. An object URL is a string minted by the browser with
  a unique identifier in it; the model keeps the identifier.
\<close>

type_synonym blob = "nat list"

type_synonym url = nat

record File =
  name :: string
  type :: string
  content :: blob

record Photo =
  "file" :: File
  previewUrl :: url

record OrganizedFolder =
  folderName :: string
  description :: string
  photoIndices :: "int list"

text \<open>
  A decoded JSON value, as \<open>JSON.parse\<close> returns it. Numbers are kept exact (a rational);
  an object is the list of its own properties, with distinct keys after decoding.
\<close>

datatype json =
    JNull
  | JBool bool
  | JNum rat
  | JStr string
  | JArr "json list"
  | JObj "(string \<times> json) list"

section \<open>The organizer client (geminiService: organizePhotos)\<close>

text \<open>
  What can be thrown inside the \<open>try\<close> block of \<open>organizePhotos\<close>: a \<open>TypeError\<close>
  (reading a property of \<open>undefined\<close> or \<open>null\<close>), the \<open>SyntaxError\<close> of
  \<open>JSON.parse\<close>, the rejection of the request, and the \<open>Error\<close> the validation
  throws itself or, in the export, the \<open>Error\<close> of a response that is not ok.
\<close>

datatype thrown =
    TypeError
  | SyntaxError
  | RequestError
  | Error string

text \<open>
  Everything the function awaits or reads from outside, in the order of the source:
  the \<open>Promise.all\<close> over the file readers and the request may never settle
  (\<open>onloadend\<close> of a failed read throws in the event handler, so its promise is never
  resolved); the request may reject; \<open>response.text\<close> may be \<open>undefined\<close>, on which
  \<open>.trim()\<close> throws; \<open>JSON.parse\<close> may throw; otherwise it returns a value.
\<close>

datatype api_outcome =
    NeverSettles
  | RequestRejected
  | TextUndefined
  | InvalidJson
  | Payload json

text \<open>
  Reading the property \<open>k\<close> of a decoded value: a \<open>TypeError\<close> on \<open>null\<close>, the own
  property of an object, and \<open>undefined\<close> (\<open>None\<close>) otherwise. The keys read by the
  program (\<open>folderName\<close>, \<open>photoIndices\<close>) are on no prototype.
\<close>

fun property :: "json \<Rightarrow> string \<Rightarrow> thrown + json option" where
  "property JNull k = Inl TypeError"
| "property (JObj kvs) k = Inr (map_of kvs k)"
| "property v k = Inr None"

fun typeof_string :: "json option \<Rightarrow> bool" where
  "typeof_string (Some (JStr s)) = True"
| "typeof_string v = False"

fun isArray :: "json option \<Rightarrow> bool" where
  "isArray (Some (JArr xs)) = True"
| "isArray v = False"

text \<open>
  The callback of \<open>result.some\<close>:
  \<^verbatim>\<open>typeof folder.folderName !== 'string' || !Array.isArray(folder.photoIndices)\<close>.
\<close>

definition bad_folder :: "json \<Rightarrow> thrown + bool" where
  "bad_folder folder =
     (case property folder ''folderName'' of
        Inl e \<Rightarrow> Inl e
      | Inr n \<Rightarrow>
          if \<not> typeof_string n then Inr True
          else (case property folder ''photoIndices'' of
                  Inl e \<Rightarrow> Inl e
                | Inr p \<Rightarrow> Inr (\<not> isArray p)))"

text \<open>\<open>Array.prototype.some\<close>: left to right, stops at the first hit or exception.\<close>

fun some :: "(json \<Rightarrow> thrown + bool) \<Rightarrow> json list \<Rightarrow> thrown + bool" where
  "some p [] = Inr False"
| "some p (x # xs) =
     (case p x of
        Inl e \<Rightarrow> Inl e
      | Inr b \<Rightarrow> if b then Inr True else some p xs)"

text \<open>The validation and the return of the \<open>try\<close> block, on the decoded value.\<close>

definition validate :: "json \<Rightarrow> thrown + json list" where
  "validate result =
     (case result of
        JArr folders \<Rightarrow>
          (case some bad_folder folders of
             Inl e \<Rightarrow> Inl e
           | Inr b \<Rightarrow>
               if b then Inl (Error ''Invalid JSON structure received from API.'')
               else Inr folders)
      | _ \<Rightarrow> Inl (Error ''Invalid JSON structure received from API.''))"

definition try_block :: "Photo list \<Rightarrow> api_outcome \<Rightarrow> (thrown + json list) option" where
  "try_block photos out =
     (case out of
        NeverSettles \<Rightarrow> None
      | RequestRejected \<Rightarrow> Some (Inl RequestError)
      | TextUndefined \<Rightarrow> Some (Inl TypeError)
      | InvalidJson \<Rightarrow> Some (Inl SyntaxError)
      | Payload result \<Rightarrow> Some (validate result))"

text \<open>
  The \<open>catch\<close> clause replaces whatever was thrown by one \<open>Error\<close>; the model keeps its
  message. \<open>None\<close>: the returned promise never settles. The cast of the return
  statement is erased at run time: the caller gets the decoded elements themselves.
\<close>

definition failure_message :: string where
  "failure_message = ''Failed to organize photos. The AI model could not process the request.''"

definition organizePhotos :: "Photo list \<Rightarrow> api_outcome \<Rightarrow> (string + json list) option" where
  "organizePhotos photos out =
     (case try_block photos out of
        None \<Rightarrow> None
      | Some (Inl e) \<Rightarrow> Some (Inl failure_message)
      | Some (Inr folders) \<Rightarrow> Some (Inr folders))"

text \<open>
  The \<open>responseSchema\<close> sent with the request: an array of objects, each with the required
  properties \<open>folderName\<close> (string), \<open>description\<close> (string) and \<open>photoIndices\<close> (array
  of integers).
\<close>

fun is_integer :: "json \<Rightarrow> bool" where
  "is_integer (JNum r) = (of_int \<lfloor>r\<rfloor> = r)"
| "is_integer v = False"

fun has_string :: "json option \<Rightarrow> bool" where
  "has_string (Some (JStr s)) = True"
| "has_string v = False"

fun has_integer_array :: "json option \<Rightarrow> bool" where
  "has_integer_array (Some (JArr xs)) = list_all is_integer xs"
| "has_integer_array v = False"

fun folder_schema :: "json \<Rightarrow> bool" where
  "folder_schema (JObj kvs) =
     (has_string (map_of kvs ''folderName'') \<and>
      has_string (map_of kvs ''description'') \<and>
      has_integer_array (map_of kvs ''photoIndices''))"
| "folder_schema v = False"

fun responseSchema :: "json \<Rightarrow> bool" where
  "responseSchema (JArr folders) = list_all folder_schema folders"
| "responseSchema v = False"

text \<open>
  The shape the validation step is specified to check: an array whose every element
  has a string name field and an array-typed indices field.
\<close>

fun has_array :: "json option \<Rightarrow> bool" where
  "has_array (Some (JArr xs)) = True"
| "has_array v = False"

fun folder_checked :: "json \<Rightarrow> bool" where
  "folder_checked (JObj kvs) =
     (has_string (map_of kvs ''folderName'') \<and> has_array (map_of kvs ''photoIndices''))"
| "folder_checked v = False"

fun checked_shape :: "json \<Rightarrow> bool" where
  "checked_shape (JArr folders) = list_all folder_checked folders"
| "checked_shape v = False"

fun elements :: "json \<Rightarrow> json list" where
  "elements (JArr xs) = xs"
| "elements v = []"

section \<open>The state of the page\<close>

text \<open>
  The five \<open>useState\<close> cells of the \<open>App\<close> component, and what the handlers do to the
  browser: \<open>issued\<close> counts the object URLs created so far (the next one gets that
  number), \<open>revoked\<close> lists every call of \<open>URL.revokeObjectURL\<close> in order, and
  \<open>requests\<close> every call of \<open>organizePhotos\<close> with the photos passed.
  The organization result is stored as the client returned it.
\<close>

record state =
  photos :: "Photo list"
  organizedFolders :: "json list option"
  isLoading :: bool
  error :: "string option"
  selectedFolder :: "json option"
  issued :: nat
  revoked :: "url list"
  requests :: "Photo list list"

definition init :: state where
  "init = \<lparr>photos = [], organizedFolders = None, isLoading = False, error = None,
            selectedFolder = None, issued = 0, revoked = [], requests = []\<rparr>"

section \<open>Photo intake (FileUpload: handleFileChange)\<close>

definition startsWith :: "string \<Rightarrow> string \<Rightarrow> bool" where
  "startsWith s p = (take (length p) s = p)"

definition createObjectURL :: "File \<Rightarrow> state \<Rightarrow> url \<times> state" where
  "createObjectURL f s = (issued s, s\<lparr>issued := Suc (issued s)\<rparr>)"

text \<open>The \<open>.map\<close> of the accepted files to photos, one new object URL each.\<close>

fun toPhotos :: "File list \<Rightarrow> state \<Rightarrow> Photo list \<times> state" where
  "toPhotos [] s = ([], s)"
| "toPhotos (f # fs) s =
     (case createObjectURL f s of
        (u, s1) \<Rightarrow>
          (case toPhotos fs s1 of
             (ps, s2) \<Rightarrow> (\<lparr>file = f, previewUrl = u\<rparr> # ps, s2)))"

definition photoArray :: "File list \<Rightarrow> state \<Rightarrow> Photo list \<times> state" where
  "photoArray files s = toPhotos (filter (\<lambda>f. startsWith (type f) ''image/'') files) s"

text \<open>
  \<open>files\<close> is \<open>FileList | null\<close>; the callback \<open>onFilesSelected\<close> is a property of the
  component. On \<open>null\<close> nothing happens.
\<close>

definition handleFileChange ::
  "(Photo list \<Rightarrow> state \<Rightarrow> state) \<Rightarrow> File list option \<Rightarrow> state \<Rightarrow> state" where
  "handleFileChange onFilesSelected files s =
     (case files of
        None \<Rightarrow> s
      | Some fs \<Rightarrow> (case photoArray fs s of (ps, s1) \<Rightarrow> onFilesSelected ps s1))"

section \<open>The state controller (App)\<close>

text \<open>\<^verbatim>\<open>photos.forEach(photo => URL.revokeObjectURL(photo.previewUrl))\<close>\<close>

definition revokeAll :: "Photo list \<Rightarrow> state \<Rightarrow> state" where
  "revokeAll ps s = s\<lparr>revoked := revoked s @ map previewUrl ps\<rparr>"

definition handleFilesSelected :: "Photo list \<Rightarrow> state \<Rightarrow> state" where
  "handleFilesSelected selectedPhotos s =
     (revokeAll (photos s) s)
       \<lparr>photos := selectedPhotos, organizedFolders := None, error := None\<rparr>"

text \<open>
  \<open>handleOrganizeClick\<close>, run to the end of its \<open>finally\<close> clause: while the request is
  in flight \<open>isLoading\<close> disables the upload control and both buttons, and the result
  view with its own button is not rendered, so no other handler runs in between.
  When the promise of the client never settles, the state stays as it was left before
  the \<open>await\<close>. The message stored is \<^verbatim>\<open>err.message || "An unknown error occurred."\<close>.
\<close>

definition handleOrganizeClick :: "api_outcome \<Rightarrow> state \<Rightarrow> state" where
  "handleOrganizeClick out s =
     (if length (photos s) = 0
      then s\<lparr>error := Some ''Please upload some photos first.''\<rparr>
      else
        (let s1 = s\<lparr>isLoading := True, error := None, organizedFolders := None\<rparr>;
             s2 = s1\<lparr>requests := requests s1 @ [photos s1]\<rparr>
         in case organizePhotos (photos s1) out of
              None \<Rightarrow> s2
            | Some (Inr folders) \<Rightarrow> s2\<lparr>organizedFolders := Some folders, isLoading := False\<rparr>
            | Some (Inl msg) \<Rightarrow>
                s2\<lparr>error := Some (if msg = [] then ''An unknown error occurred.'' else msg),
                   isLoading := False\<rparr>))"

definition handleReset :: "state \<Rightarrow> state" where
  "handleReset s =
     (revokeAll (photos s) s)
       \<lparr>photos := [], organizedFolders := None, error := None, isLoading := False\<rparr>"

text \<open>
  The clean-up of the effect that depends on \<open>photos\<close>: it revokes the URLs of the
  photos of the render that installed it, and runs when a later render has another
  \<open>photos\<close> array. Both \<open>handleFilesSelected\<close> and \<open>handleReset\<close> pass a new array to
  \<open>setPhotos\<close>, so the render that follows either handler runs the clean-up on the
  photos that were replaced; \<open>handleOrganizeClick\<close> leaves \<open>photos\<close> alone.
\<close>

definition effect_cleanup :: "Photo list \<Rightarrow> state \<Rightarrow> state" where
  "effect_cleanup ps s = revokeAll ps s"

text \<open>
  A selection through the file picker: its \<open>onChange\<close> is made anew at every render and
  calls the \<open>handleFilesSelected\<close> of the current render.
\<close>

definition selectPhotos :: "Photo list \<Rightarrow> state \<Rightarrow> state" where
  "selectPhotos selectedPhotos s = effect_cleanup (photos s) (handleFilesSelected selectedPhotos s)"

text \<open>
  A selection by drag and drop: \<open>onDrop\<close> is memoised (\<open>useCallback\<close> on \<open>disabled\<close>
  alone), so it calls the \<open>handleFilesSelected\<close> of the render at which \<open>disabled\<close> last
  changed. That handler walks the \<open>photos\<close> of its own render, here \<open>rendered\<close>, which
  need not be the current ones; the clean-up of the effect still runs on the photos
  that are replaced.
\<close>

definition staleFilesSelected :: "Photo list \<Rightarrow> Photo list \<Rightarrow> state \<Rightarrow> state" where
  "staleFilesSelected rendered selectedPhotos s =
     (revokeAll rendered s)
       \<lparr>photos := selectedPhotos, organizedFolders := None, error := None\<rparr>"

definition dropPhotos :: "Photo list \<Rightarrow> Photo list \<Rightarrow> state \<Rightarrow> state" where
  "dropPhotos rendered selectedPhotos s =
     effect_cleanup (photos s) (staleFilesSelected rendered selectedPhotos s)"

definition reset :: "state \<Rightarrow> state" where
  "reset s = effect_cleanup (photos s) (handleReset s)"

text \<open>
  The states the page can be in: from the initial one, by a selection of files (the
  upload control is rendered with \<open>handleFilesSelected\<close> as its callback) through the
  picker or by a drop, whatever render the drop handler dates from, by an organize
  request with whatever the service does, and by a reset.
\<close>

inductive reachable :: "state \<Rightarrow> bool" where
  reachable_init: "reachable init"
| reachable_select: "reachable s \<Longrightarrow> reachable (handleFileChange selectPhotos files s)"
| reachable_drop: "reachable s \<Longrightarrow> reachable (handleFileChange (dropPhotos rendered) files s)"
| reachable_organize: "reachable s \<Longrightarrow> reachable (handleOrganizeClick out s)"
| reachable_reset: "reachable s \<Longrightarrow> reachable (reset s)"


section \<open>Folder export (FolderViewModal: handleDownload)\<close>

text \<open>
  \<open>allPhotos[index]\<close> is \<open>undefined\<close> (\<open>None\<close>) unless the index is one of the array.
\<close>

definition photosInFolder :: "OrganizedFolder \<Rightarrow> Photo list \<Rightarrow> Photo option list" where
  "photosInFolder folder allPhotos =
     map (\<lambda>index. if 0 \<le> index \<and> index < int (length allPhotos)
                   then Some (allPhotos ! nat index) else None)
         (photoIndices folder)"

text \<open>
  The render of the modal maps \<open>photosInFolder\<close> to thumbnails and reads
  \<open>photo.previewUrl\<close> of every element, outside any \<open>try\<close>: on \<open>undefined\<close> the
  render throws, and an exception of a render unmounts the page.
\<close>

fun thumbnails :: "Photo option list \<Rightarrow> thrown + url list" where
  "thumbnails [] = Inr []"
| "thumbnails (None # ps) = Inl TypeError"
| "thumbnails (Some p # ps) =
     (case thumbnails ps of Inl e \<Rightarrow> Inl e | Inr us \<Rightarrow> Inr (previewUrl p # us))"

definition FolderViewModal :: "OrganizedFolder \<Rightarrow> Photo list \<Rightarrow> thrown + url list" where
  "FolderViewModal folder allPhotos = thumbnails (photosInFolder folder allPhotos)"

text \<open>What \<open>fetch\<close> of an object URL gives: a rejection, or a response with its \<open>ok\<close> flag and body.\<close>

datatype fetch_result = Rejected | Response bool blob

text \<open>
  The callback of \<open>photosInFolder.map\<close> reads \<open>photo.previewUrl\<close> at once, which throws
  on \<open>undefined\<close> before any promise exists.
\<close>

fun started :: "Photo option list \<Rightarrow> thrown + Photo list" where
  "started [] = Inr []"
| "started (None # ps) = Inl TypeError"
| "started (Some p # ps) =
     (case started ps of Inl e \<Rightarrow> Inl e | Inr qs \<Rightarrow> Inr (p # qs))"

fun settled :: "(url \<Rightarrow> fetch_result) \<Rightarrow> Photo \<Rightarrow> thrown + string \<times> blob" where
  "settled fetch photo =
     (case fetch (previewUrl photo) of
        Rejected \<Rightarrow> Inl TypeError
      | Response ok b \<Rightarrow>
          if \<not> ok then Inl (Error (''Failed to fetch '' @ name (file photo)))
          else Inr (name (file photo), b))"

text \<open>\<open>Promise.all\<close>: all the values in order, or a rejection (here the first in order).\<close>

fun all_settled :: "(url \<Rightarrow> fetch_result) \<Rightarrow> Photo list \<Rightarrow> thrown + (string \<times> blob) list" where
  "all_settled fetch [] = Inr []"
| "all_settled fetch (p # ps) =
     (case settled fetch p of
        Inl e \<Rightarrow> Inl e
      | Inr d \<Rightarrow> (case all_settled fetch ps of Inl e \<Rightarrow> Inl e | Inr ds \<Rightarrow> Inr (d # ds)))"

text \<open>
  \<open>zip.file(name, blob)\<close>, for a name without a path separator: an entry of that name
  is replaced. The list keeps the order of insertion; the archive lists names that are
  array indices first.
\<close>

fun zip_file :: "string \<Rightarrow> blob \<Rightarrow> (string \<times> blob) list \<Rightarrow> (string \<times> blob) list" where
  "zip_file n b [] = [(n, b)]"
| "zip_file n b ((k, v) # z) = (if k = n then (n, b) # z else (k, v) # zip_file n b z)"

text \<open>
  \<^verbatim>\<open>folder.folderName.replace(/[^a-z0-9]/gi, '_').toLowerCase()\<close>, on names whose
  characters are single code units below 256.
\<close>

definition alphanumeric :: "char \<Rightarrow> bool" where
  "alphanumeric c =
     (let n = (of_char c :: nat)
      in (48 \<le> n \<and> n \<le> 57) \<or> (65 \<le> n \<and> n \<le> 90) \<or> (97 \<le> n \<and> n \<le> 122))"

definition toLowerCase :: "char \<Rightarrow> char" where
  "toLowerCase c =
     (let n = (of_char c :: nat) in if 65 \<le> n \<and> n \<le> 90 then char_of (n + 32) else c)"

definition safeFolderName :: "string \<Rightarrow> string" where
  "safeFolderName s = map toLowerCase (map (\<lambda>c. if alphanumeric c then c else CHR ''_'') s)"

text \<open>
  The state of the modal: its \<open>isZipping\<close> cell, what the \<open>catch\<close> clause wrote to the
  console, and the archives offered for download, each with its file name.
\<close>

record modal =
  isZipping :: bool
  console :: "thrown list"
  downloads :: "(string \<times> (string \<times> blob) list) list"

text \<open>
  The \<open>try\<close> block of \<open>handleDownload\<close>, to the click on the link. The object URL of
  the archive is created and revoked within the block.
\<close>

definition download_try ::
  "(url \<Rightarrow> fetch_result) \<Rightarrow> OrganizedFolder \<Rightarrow> Photo list
     \<Rightarrow> thrown + string \<times> (string \<times> blob) list" where
  "download_try fetch folder allPhotos =
     (case started (photosInFolder folder allPhotos) of
        Inl e \<Rightarrow> Inl e
      | Inr ps \<Rightarrow>
          (case all_settled fetch ps of
             Inl e \<Rightarrow> Inl e
           | Inr photoData \<Rightarrow>
               Inr (safeFolderName (folderName folder) @ ''.zip'',
                    fold (\<lambda>d z. zip_file (fst d) (snd d) z) photoData [])))"

definition handleDownload ::
  "(url \<Rightarrow> fetch_result) \<Rightarrow> OrganizedFolder \<Rightarrow> Photo list \<Rightarrow> modal \<Rightarrow> modal" where
  "handleDownload fetch folder allPhotos m =
     (if isZipping m then m
      else
        (let m1 = m\<lparr>isZipping := True\<rparr>;
             m2 = (case download_try fetch folder allPhotos of
                     Inl e \<Rightarrow> m1\<lparr>console := console m1 @ [e]\<rparr>
                   | Inr d \<Rightarrow> m1\<lparr>downloads := downloads m1 @ [d]\<rparr>)
         in m2\<lparr>isZipping := False\<rparr>))"

text \<open>
  A click on the download button of the modal: the button exists only when the modal
  has rendered, and \<open>handleDownload\<close> is a closure of that render. \<open>Inl\<close>: the exception
  of the render, which nothing catches.
\<close>

definition clickDownload ::
  "(url \<Rightarrow> fetch_result) \<Rightarrow> OrganizedFolder \<Rightarrow> Photo list \<Rightarrow> modal \<Rightarrow> thrown + modal" where
  "clickDownload fetch folder allPhotos m =
     (case FolderViewModal folder allPhotos of
        Inl e \<Rightarrow> Inl e
      | Inr us \<Rightarrow> Inr (handleDownload fetch folder allPhotos m))"

section \<open>Example values\<close>

definition example_image :: File where
  "example_image = \<lparr>name = ''a.png'', type = ''image/png'', content = [137, 80]\<rparr>"

definition example_note :: File where
  "example_note = \<lparr>name = ''notes.txt'', type = ''text/plain'', content = [104, 105]\<rparr>"

definition example_state :: state where
  "example_state = handleFileChange selectPhotos (Some [example_note, example_image]) init"

definition example_folders :: "json list" where
  "example_folders =
     [JObj [(''folderName'', JStr ''Trip''), (''description'', JStr ''One photo.''),
            (''photoIndices'', JArr [JNum 0])]]"

definition example_folder :: OrganizedFolder where
  "example_folder = \<lparr>folderName = ''Trip'', description = ''One photo.'', photoIndices = [0, 1]\<rparr>"

definition example_modal :: modal where
  "example_modal = \<lparr>isZipping = False, console = [], downloads = []\<rparr>"

section \<open>Validation of the response\<close>

lemma typeof_string_iff: "typeof_string v = has_string v"
  by (cases v rule: has_string.cases) simp_all

lemma isArray_iff: "isArray v = has_array v"
  by (cases v rule: has_array.cases) simp_all

lemma bad_folder_checked:
  "folder_checked f \<Longrightarrow> bad_folder f = Inr False"
  by (cases f) (simp_all add: bad_folder_def typeof_string_iff isArray_iff)

lemma bad_folder_unchecked:
  "\<not> folder_checked f \<Longrightarrow> bad_folder f = Inl TypeError \<or> bad_folder f = Inr True"
  by (cases f) (auto simp add: bad_folder_def typeof_string_iff isArray_iff)

lemma some_all_checked:
  "list_all folder_checked fs \<Longrightarrow> some bad_folder fs = Inr False"
  by (induction fs) (simp_all add: bad_folder_checked)

lemma some_not_all_checked:
  "\<not> list_all folder_checked fs \<Longrightarrow> some bad_folder fs \<noteq> Inr False"
proof (induction fs)
  case Nil
  then show ?case by simp
next
  case (Cons f fs)
  show ?case
  proof (cases "folder_checked f")
    case True
    with Cons show ?thesis by (simp add: bad_folder_checked)
  next
    case False
    from bad_folder_unchecked [OF False] show ?thesis by auto
  qed
qed

lemma validate_checked:
  "checked_shape j \<Longrightarrow> validate j = Inr (elements j)"
  by (cases j) (simp_all add: validate_def some_all_checked)

lemma validate_unchecked:
  "\<not> checked_shape j \<Longrightarrow> \<exists>e. validate j = Inl e"
proof (cases j)
  case (JArr fs)
  assume "\<not> checked_shape j"
  with JArr have "some bad_folder fs \<noteq> Inr False"
    by (simp add: some_not_all_checked)
  then show ?thesis
    using JArr by (cases "some bad_folder fs") (auto simp add: validate_def)
qed (simp_all add: validate_def)

text \<open>
  C1 (as amended). A decoded payload passes exactly when it is an array whose every
  element has a string \<open>folderName\<close> and an array-typed \<open>photoIndices\<close>; it is then
  returned as it is. Every other payload makes the whole call fail with the one
  error of the \<open>catch\<close> clause. Neither \<open>description\<close> nor the type of the indices is
  looked at.
\<close>

theorem organizePhotos_validation:
  "organizePhotos ps (Payload j) =
     Some (if checked_shape j then Inr (elements j) else Inl failure_message)"
proof (cases "checked_shape j")
  case True
  then show ?thesis
    by (simp add: organizePhotos_def try_block_def validate_checked)
next
  case False
  from validate_unchecked [OF False] obtain e where "validate j = Inl e" ..
  with False show ?thesis
    by (simp add: organizePhotos_def try_block_def)
qed

text \<open>
  C1 (as stated) fails: a payload whose only folder has no \<open>description\<close> and a string
  among its indices does not match the declared schema, and the call returns it.
\<close>

theorem organizePhotos_schema_counterexample:
  "\<not> responseSchema
       (JArr [JObj [(''folderName'', JStr ''Trip''), (''photoIndices'', JArr [JStr ''first''])]]) \<and>
   organizePhotos
     [\<lparr>file = \<lparr>name = ''a.png'', type = ''image/png'', content = []\<rparr>, previewUrl = 0\<rparr>]
     (Payload (JArr [JObj [(''folderName'', JStr ''Trip''), (''photoIndices'', JArr [JStr ''first''])]]))
   = Some (Inr [JObj [(''folderName'', JStr ''Trip''), (''photoIndices'', JArr [JStr ''first''])]])"
  by (simp add: organizePhotos_def try_block_def validate_def bad_folder_def)

section \<open>Intake\<close>

lemma toPhotos_files: "map file (fst (toPhotos fs s)) = fs"
  by (induction fs arbitrary: s) (simp_all add: createObjectURL_def split_beta)

lemma toPhotos_state: "snd (toPhotos fs s) = s\<lparr>issued := issued s + length fs\<rparr>"
  by (induction fs arbitrary: s) (simp_all add: createObjectURL_def split_beta)

lemma upt_first: "[n ..< n + Suc k] = n # [Suc n ..< Suc n + k]"
  by (simp add: upt_conv_Cons)

lemma toPhotos_urls: "map previewUrl (fst (toPhotos fs s)) = [issued s ..< issued s + length fs]"
proof (induction fs arbitrary: s)
  case Nil
  then show ?case by simp
next
  case (Cons f fs)
  have "map previewUrl (fst (toPhotos fs (s\<lparr>issued := Suc (issued s)\<rparr>)))
          = [Suc (issued s) ..< Suc (issued s) + length fs]"
    using Cons [of "s\<lparr>issued := Suc (issued s)\<rparr>"] by simp
  moreover have "[issued s ..< issued s + length (f # fs)]
          = issued s # [Suc (issued s) ..< Suc (issued s) + length fs]"
    using upt_first [of "issued s" "length fs"] by simp
  ultimately show ?case
    by (simp only: toPhotos.simps createObjectURL_def split_beta fst_conv snd_conv
          list.map Photo.simps)
qed

lemma example_state_eq:
  "example_state =
     \<lparr>photos = [\<lparr>file = example_image, previewUrl = 0\<rparr>], organizedFolders = None,
      isLoading = False, error = None, selectedFolder = None, issued = 1, revoked = [],
      requests = []\<rparr>"
  by (simp add: example_state_def example_image_def example_note_def handleFileChange_def
        photoArray_def startsWith_def createObjectURL_def selectPhotos_def effect_cleanup_def
        revokeAll_def handleFilesSelected_def init_def)

text \<open>
  C6. For every file list, the photos passed to the callback are exactly the files whose
  content type starts with \<open>image/\<close>, in their order in the list, each with an object URL
  created for it: the URLs are the next unused ones, one after the other, so they are
  distinct and none of them was issued before. Nothing else of the state changes before
  the callback runs, and no error is raised: the other files are left out.
\<close>

theorem intake_images_in_order:
  "map file (fst (photoArray files s)) = filter (\<lambda>f. startsWith (type f) ''image/'') files \<and>
   map previewUrl (fst (photoArray files s))
     = [issued s ..< issued s + length (filter (\<lambda>f. startsWith (type f) ''image/'') files)] \<and>
   distinct (map previewUrl (fst (photoArray files s))) \<and>
   snd (photoArray files s)
     = s\<lparr>issued := issued s + length (filter (\<lambda>f. startsWith (type f) ''image/'') files)\<rparr> \<and>
   handleFileChange onFilesSelected (Some files) s
     = onFilesSelected (fst (photoArray files s)) (snd (photoArray files s))"
  by (simp add: photoArray_def handleFileChange_def toPhotos_files toPhotos_state toPhotos_urls
        split_beta)



section \<open>The controller\<close>

lemma handleOrganizeClick_cases:
  "handleOrganizeClick out s =
     (if photos s = [] then s\<lparr>error := Some ''Please upload some photos first.''\<rparr>
      else case organizePhotos (photos s) out of
             None \<Rightarrow>
               s\<lparr>isLoading := True, error := None, organizedFolders := None,
                  requests := requests s @ [photos s]\<rparr>
           | Some (Inr folders) \<Rightarrow>
               s\<lparr>isLoading := False, error := None, organizedFolders := Some folders,
                  requests := requests s @ [photos s]\<rparr>
           | Some (Inl msg) \<Rightarrow>
               s\<lparr>isLoading := False, organizedFolders := None,
                  error := Some (if msg = [] then ''An unknown error occurred.'' else msg),
                  requests := requests s @ [photos s]\<rparr>)"
proof (cases "organizePhotos (photos s) out")
  case None
  then show ?thesis by (simp add: handleOrganizeClick_def)
next
  case (Some r)
  then show ?thesis by (cases r) (simp_all add: handleOrganizeClick_def)
qed

lemma handleOrganizeClick_revoked: "revoked (handleOrganizeClick out s) = revoked s"
proof (cases "organizePhotos (photos s) out")
  case None
  then show ?thesis by (simp add: handleOrganizeClick_cases)
next
  case (Some r)
  then show ?thesis by (cases r) (simp_all add: handleOrganizeClick_cases)
qed

lemma selectPhotos_fields:
  "photos (selectPhotos ps s) = ps \<and> issued (selectPhotos ps s) = issued s \<and>
   revoked (selectPhotos ps s) = revoked s @ map previewUrl (photos s) @ map previewUrl (photos s)"
  by (simp add: selectPhotos_def effect_cleanup_def revokeAll_def handleFilesSelected_def)

lemma dropPhotos_fields:
  "photos (dropPhotos rendered ps s) = ps \<and> issued (dropPhotos rendered ps s) = issued s \<and>
   organizedFolders (dropPhotos rendered ps s) = None \<and> error (dropPhotos rendered ps s) = None \<and>
   revoked (dropPhotos rendered ps s)
     = revoked s @ map previewUrl rendered @ map previewUrl (photos s)"
  by (simp add: dropPhotos_def effect_cleanup_def revokeAll_def staleFilesSelected_def)

lemma handleOrganizeClick_urls:
  "photos (handleOrganizeClick out s) = photos s \<and> issued (handleOrganizeClick out s) = issued s"
proof (cases "organizePhotos (photos s) out")
  case None
  then show ?thesis by (simp add: handleOrganizeClick_cases)
next
  case (Some r)
  then show ?thesis by (cases r) (simp_all add: handleOrganizeClick_cases)
qed

text \<open>
  No object URL is lost sight of: in every reachable state, each URL created so far is
  held by the current photo set or has been revoked, since the clean-up of the effect
  runs on every photo set that is replaced.
\<close>

lemma reachable_no_leak:
  "reachable s \<Longrightarrow> {..<issued s} \<subseteq> set (map previewUrl (photos s)) \<union> set (revoked s)"
proof (induction rule: reachable.induct)
  case reachable_init
  show ?case by (simp add: init_def)
next
  case (reachable_select s files)
  show ?case
  proof (cases files)
    case None
    with reachable_select.IH show ?thesis by (simp add: handleFileChange_def)
  next
    case (Some fs)
    let ?k = "length (filter (\<lambda>f. startsWith (type f) ''image/'') fs)"
    have "{..<issued s + ?k} \<subseteq> {..<issued s} \<union> set [issued s ..< issued s + ?k]"
      by auto
    with reachable_select.IH Some show ?thesis
      by (auto simp add: handleFileChange_def photoArray_def split_beta selectPhotos_fields
            toPhotos_state toPhotos_urls)
  qed
next
  case (reachable_drop s rendered files)
  show ?case
  proof (cases files)
    case None
    with reachable_drop.IH show ?thesis by (simp add: handleFileChange_def)
  next
    case (Some fs)
    let ?k = "length (filter (\<lambda>f. startsWith (type f) ''image/'') fs)"
    have "{..<issued s + ?k} \<subseteq> {..<issued s} \<union> set [issued s ..< issued s + ?k]"
      by auto
    with reachable_drop.IH Some show ?thesis
      by (auto simp add: handleFileChange_def photoArray_def split_beta dropPhotos_fields
            toPhotos_state toPhotos_urls)
  qed
next
  case (reachable_organize s out)
  then show ?case
    by (simp add: handleOrganizeClick_urls handleOrganizeClick_revoked)
next
  case (reachable_reset s)
  then show ?case
    by (auto simp add: reset_def effect_cleanup_def revokeAll_def handleReset_def)
qed

lemma validate_Inr: "validate j = Inr folders \<Longrightarrow> j = JArr folders"
  by (cases j) (auto simp add: validate_def split: sum.splits if_splits)

lemma organizePhotos_Inr:
  "organizePhotos ps out = Some (Inr folders) \<Longrightarrow> out = Payload (JArr folders)"
  by (cases out) (auto simp add: organizePhotos_def try_block_def split: sum.splits dest: validate_Inr)

lemma organizePhotos_Inl:
  "organizePhotos ps out = Some (Inl msg) \<Longrightarrow> msg = failure_message"
  by (cases out) (auto simp add: organizePhotos_def try_block_def split: sum.splits)

lemma example_organizePhotos:
  "organizePhotos (photos example_state) (Payload (JArr example_folders)) = Some (Inr example_folders)"
  by (simp add: organizePhotos_def try_block_def validate_def bad_folder_def example_folders_def)

text \<open>
  C2. Whenever the photo set is empty, an organize request changes nothing but the
  error, which becomes the validation message; in particular the organizer client is
  not called, whatever the service would have answered.
\<close>

theorem organize_empty_noop:
  "photos s = [] \<Longrightarrow>
     handleOrganizeClick out s = s\<lparr>error := Some ''Please upload some photos first.''\<rparr> \<and>
     requests (handleOrganizeClick out s) = requests s"
  by (simp add: handleOrganizeClick_def)

theorem organize_empty_noop_witness:
  "photos (reset example_state) = [] \<and>
   handleOrganizeClick (Payload (JArr example_folders)) (reset example_state)
     = (reset example_state)\<lparr>error := Some ''Please upload some photos first.''\<rparr> \<and>
   requests (handleOrganizeClick (Payload (JArr example_folders)) (reset example_state)) = []"
proof -
  have h: "photos (reset example_state) = []"
    by (simp add: reset_def effect_cleanup_def revokeAll_def handleReset_def)
  have r: "requests (reset example_state) = []"
    by (simp add: example_state_eq reset_def effect_cleanup_def revokeAll_def handleReset_def)
  from organize_empty_noop [OF h, of "Payload (JArr example_folders)"] h r
  show ?thesis by simp
qed

text \<open>
  C4. For every successful organize call, the folders stored in the state are the
  sequence the organizer client returned, which is itself the sequence of elements of
  the decoded payload: nothing is added, dropped, reordered or changed on the way.
\<close>

theorem organize_success_stored:
  assumes "photos s \<noteq> []" and "organizePhotos (photos s) out = Some (Inr folders)"
  shows "organizedFolders (handleOrganizeClick out s) = Some folders \<and>
         out = Payload (JArr folders)"
  using assms by (simp add: handleOrganizeClick_def organizePhotos_Inr)

theorem organize_success_stored_witness:
  "photos example_state \<noteq> [] \<and>
   organizePhotos (photos example_state) (Payload (JArr example_folders)) = Some (Inr example_folders) \<and>
   organizedFolders (handleOrganizeClick (Payload (JArr example_folders)) example_state)
     = Some example_folders"
proof -
  have h: "photos example_state \<noteq> []"
    by (simp add: example_state_eq)
  from organize_success_stored [OF h example_organizePhotos] h example_organizePhotos
  show ?thesis by simp
qed

text \<open>
  C5. For every organize call that fails, the state afterwards has the photo set that
  was there when the call started, the message of the failure as its error, and no
  organization result.
\<close>

theorem organize_failure_state:
  assumes "photos s \<noteq> []" and "organizePhotos (photos s) out = Some (Inl msg)"
  shows "photos (handleOrganizeClick out s) = photos s \<and>
         error (handleOrganizeClick out s) = Some msg \<and>
         organizedFolders (handleOrganizeClick out s) = None"
proof -
  have "msg = failure_message" using assms(2) by (rule organizePhotos_Inl)
  then have "msg \<noteq> []" by (simp add: failure_message_def)
  with assms show ?thesis by (simp add: handleOrganizeClick_def)
qed

theorem organize_failure_state_witness:
  "photos example_state \<noteq> [] \<and>
   organizePhotos (photos example_state) (Payload (JArr [JNull])) = Some (Inl failure_message) \<and>
   photos (handleOrganizeClick (Payload (JArr [JNull])) example_state) = photos example_state \<and>
   error (handleOrganizeClick (Payload (JArr [JNull])) example_state) = Some failure_message \<and>
   organizedFolders (handleOrganizeClick (Payload (JArr [JNull])) example_state) = None"
proof -
  have h1: "photos example_state \<noteq> []"
    by (simp add: example_state_eq)
  have h2: "organizePhotos (photos example_state) (Payload (JArr [JNull])) = Some (Inl failure_message)"
    by (simp add: organizePhotos_def try_block_def validate_def bad_folder_def)
  from organize_failure_state [OF h1 h2] h1 h2
  show ?thesis by simp
qed

text \<open>
  What each way of replacing the photo set releases. A reset and a selection through the
  picker release every URL of the replaced set twice, by the handler and again by the
  clean-up of the effect; a drop releases the URLs of the render its handler dates from
  and, by the clean-up, those of the replaced set; an organize request releases nothing.
\<close>

lemma releases_on_replacement:
  "revoked (reset s) = revoked s @ map previewUrl (photos s) @ map previewUrl (photos s) \<and>
   revoked (handleFileChange selectPhotos (Some files) s)
     = revoked s @ map previewUrl (photos s) @ map previewUrl (photos s) \<and>
   revoked (handleFileChange (dropPhotos rendered) (Some files) s)
     = revoked s @ map previewUrl rendered @ map previewUrl (photos s) \<and>
   revoked (handleOrganizeClick out s) = revoked s"
  by (simp add: selectPhotos_fields dropPhotos_fields handleFileChange_def photoArray_def
      split_beta toPhotos_state reset_def effect_cleanup_def revokeAll_def handleReset_def
      handleOrganizeClick_revoked)

text \<open>
  C7. Every object URL created at intake is to be released exactly once, when its photo
  set is replaced or cleared. The page does not do so: after one image is selected
  through the picker on the initial page and the page is reset, the one URL created
  has been revoked twice.
\<close>

theorem reset_releases_twice:
  "map previewUrl (photos (handleFileChange selectPhotos (Some [example_image]) init)) = [0] \<and>
   revoked (handleFileChange selectPhotos (Some [example_image]) init) = [] \<and>
   revoked (reset (handleFileChange selectPhotos (Some [example_image]) init)) = [0, 0]"
  by (simp add: example_image_def handleFileChange_def photoArray_def startsWith_def
        createObjectURL_def selectPhotos_def effect_cleanup_def revokeAll_def
        handleFilesSelected_def handleReset_def reset_def init_def)

text \<open>
  The count depends on the way the set is replaced: two images dropped one after the
  other on the initial page, through the drop handler of the first render, leave the
  first URL revoked once.
\<close>

lemma drop_releases_once:
  "revoked (handleFileChange (dropPhotos []) (Some [example_image])
      (handleFileChange (dropPhotos []) (Some [example_image]) init)) = [0]"
  by (simp add: example_image_def handleFileChange_def photoArray_def startsWith_def
        createObjectURL_def dropPhotos_def effect_cleanup_def revokeAll_def
        staleFilesSelected_def init_def)


lemma reachable_result_invariant:
  "reachable s \<Longrightarrow> organizedFolders s \<noteq> None \<longrightarrow> photos s \<noteq> [] \<and> error s = None"
proof (induction rule: reachable.induct)
  case reachable_init
  show ?case by (simp add: init_def)
next
  case (reachable_select s files)
  show ?case
  proof (cases files)
    case None
    with reachable_select.IH show ?thesis by (simp add: handleFileChange_def)
  next
    case (Some fs)
    then show ?thesis
      by (simp add: handleFileChange_def split_beta selectPhotos_def effect_cleanup_def
            revokeAll_def handleFilesSelected_def)
  qed
next
  case (reachable_drop s rendered files)
  show ?case
  proof (cases files)
    case None
    with reachable_drop.IH show ?thesis by (simp add: handleFileChange_def)
  next
    case (Some fs)
    then show ?thesis
      by (simp add: handleFileChange_def split_beta dropPhotos_fields)
  qed
next
  case (reachable_organize s out)
  show ?case
  proof (cases "organizePhotos (photos s) out")
    case None
    with reachable_organize.IH show ?thesis
      by (auto simp add: handleOrganizeClick_cases)
  next
    case (Some r)
    with reachable_organize.IH show ?thesis
      by (cases r) (auto simp add: handleOrganizeClick_cases)
  qed
next
  case (reachable_reset s)
  show ?case
    by (simp add: reset_def effect_cleanup_def revokeAll_def handleReset_def)
qed

text \<open>
  C9. In every state reachable by selections, organize requests and resets, the error
  and the organization result are not both present.
\<close>

theorem error_and_result_exclusive:
  "reachable s \<Longrightarrow> \<not> (error s \<noteq> None \<and> organizedFolders s \<noteq> None)"
  using reachable_result_invariant by auto

theorem error_and_result_exclusive_witness:
  "reachable (handleOrganizeClick RequestRejected example_state) \<and>
   error (handleOrganizeClick RequestRejected example_state) = Some failure_message \<and>
   organizedFolders (handleOrganizeClick RequestRejected example_state) = None"
proof -
  have "reachable example_state"
    unfolding example_state_def by (intro reachable_select reachable_init)
  then have r: "reachable (handleOrganizeClick RequestRejected example_state)"
    by (rule reachable_organize)
  have e: "error (handleOrganizeClick RequestRejected example_state) = Some failure_message"
    by (simp add: example_state_eq handleOrganizeClick_def organizePhotos_def try_block_def
          failure_message_def)
  from error_and_result_exclusive [OF r] r e show ?thesis by simp
qed

section \<open>The export\<close>

lemma started_undefined: "None \<in> set ps \<Longrightarrow> started ps = Inl TypeError"
  by (induction ps rule: started.induct) (auto split: sum.splits)

lemma photosInFolder_out_of_range:
  assumes "i \<in> set (photoIndices folder)" and "int (length allPhotos) \<le> i"
  shows "None \<in> set (photosInFolder folder allPhotos)"
proof -
  let ?f = "\<lambda>index. if 0 \<le> index \<and> index < int (length allPhotos)
                     then Some (allPhotos ! nat index) else None"
  have "None = ?f i"
    using assms(2) by simp
  then have "None \<in> ?f ` set (photoIndices folder)"
    using assms(1) by (rule image_eqI)
  then show ?thesis
    by (simp add: photosInFolder_def)
qed

lemma thumbnails_undefined: "None \<in> set ps \<Longrightarrow> thumbnails ps = Inl TypeError"
  by (induction ps rule: thumbnails.induct) (auto split: sum.splits)

text \<open>
  For every folder with an index at or beyond the length of the photo list, the render
  of the modal throws, so there is no download button to click; the body of
  \<open>handleDownload\<close>, were it run, would throw in its \<open>try\<close> block and leave a
  \<open>TypeError\<close> on the console and no archive.
\<close>

lemma out_of_range_render_throws:
  assumes "i \<in> set (photoIndices folder)" and "int (length allPhotos) \<le> i"
  shows "FolderViewModal folder allPhotos = Inl TypeError \<and>
         clickDownload fetch folder allPhotos m = Inl TypeError"
proof -
  have "thumbnails (photosInFolder folder allPhotos) = Inl TypeError"
    by (rule thumbnails_undefined) (rule photosInFolder_out_of_range [OF assms])
  then show ?thesis
    by (simp add: FolderViewModal_def clickDownload_def)
qed

lemma out_of_range_handler_logs:
  assumes "\<not> isZipping m" and "i \<in> set (photoIndices folder)" and "int (length allPhotos) \<le> i"
  shows "handleDownload fetch folder allPhotos m = m\<lparr>console := console m @ [TypeError]\<rparr>"
proof -
  have "started (photosInFolder folder allPhotos) = Inl TypeError"
    by (rule started_undefined) (rule photosInFolder_out_of_range [OF assms(2,3)])
  then have "download_try fetch folder allPhotos = Inl TypeError"
    by (simp add: download_try_def)
  with assms(1) show ?thesis
    by (simp add: handleDownload_def)
qed

text \<open>
  C3. A folder with an index at or beyond the length of the photo list is to make the
  export fail with an export error, without a crash. The page does not do so: for the
  folder with indices 0 and 1 over the one selected photo, the second element of
  \<open>photosInFolder\<close> is \<open>undefined\<close>, the render of the modal throws a \<open>TypeError\<close> that
  nothing catches, and a click on the download button has no handler to reach. The
  body of \<open>handleDownload\<close> alone ends with that \<open>TypeError\<close> on the console, no archive,
  and nothing shown to the user.
\<close>

theorem export_out_of_range_crashes:
  "photosInFolder example_folder (photos example_state)
     = [Some \<lparr>file = example_image, previewUrl = 0\<rparr>, None] \<and>
   FolderViewModal example_folder (photos example_state) = Inl TypeError \<and>
   clickDownload (\<lambda>u. Response True [1, 2, 3]) example_folder (photos example_state) example_modal
     = Inl TypeError \<and>
   handleDownload (\<lambda>u. Response True [1, 2, 3]) example_folder (photos example_state) example_modal
     = \<lparr>isZipping = False, console = [TypeError], downloads = []\<rparr>"
  by (simp add: example_state_eq example_folder_def example_modal_def photosInFolder_def
        FolderViewModal_def clickDownload_def handleDownload_def download_try_def)

end
